theory Spec2Isabelle
  imports Main "HOL-Library.Sublist"
begin


section \<open>JavaScript values\<close>

text \<open>
  The library of \<^verbatim>\<open>src/index.ts\<close> is a handful of pure functions over JavaScript strings
  and JSON values. A string is modelled by the list of its code units, each below 256
  (\<^typ>\<open>char\<close>): this is the domain of \<^verbatim>\<open>btoa\<close>, which every encoded payload and callback
  goes through. A number is modelled by an integer, read the way a numeric literal is:
  it denotes the double nearest to it, which is the integer itself up to \<open>2\<^sup>5\<^sup>3\<close>.

  A call either returns, throws, or leaves the modelled fragment of the platform (a JSON
  numeral with a fraction, text beyond code unit 255): the third outcome is kept apart
  from the second, so that no statement about a thrown error rests on it.
\<close>

datatype error =
    MalformedUri
  | InvalidProtocol string
  | InvalidAction string
  | InvalidPayload
  | InvalidSigningAction string
  | MalformedEncoding
  | SignerUnavailable string
  | SyntaxError
  | TypeError

datatype 'a outcome = Returns 'a | Throws error | Unmodelled

fun and_then :: "'a outcome \<Rightarrow> ('a \<Rightarrow> 'b outcome) \<Rightarrow> 'b outcome" where
  "and_then (Returns x) f = f x"
| "and_then (Throws e) f = Throws e"
| "and_then Unmodelled f = Unmodelled"

datatype json =
    JNull
  | JBool bool
  | JNumber int
  | JString string
  | JArray "json list"
  | JObject "(string \<times> json) list"

text \<open>The values a template context holds: \<^verbatim>\<open>ctx[m]\<close> is a string, a number or undefined.\<close>

datatype jsval = Undefined | Num int | Str string

fun truthy :: "jsval \<Rightarrow> bool" where
  "truthy Undefined = False"
| "truthy (Num n) = (n \<noteq> 0)"
| "truthy (Str s) = (s \<noteq> [])"

definition digit_char :: "nat \<Rightarrow> char" where
  "digit_char d = ''0123456789'' ! d"

function decimal_digits :: "int \<Rightarrow> string" where
  "decimal_digits n =
     (if n < 10 then [digit_char (nat n)] else decimal_digits (n div 10) @ [digit_char (nat (n mod 10))])"
  by pat_completeness auto
termination
  by (relation "measure nat") auto

text \<open>
  The double nearest to a natural number: below \<open>2\<^sup>5\<^sup>3\<close> the number itself, from there on
  the 53 leading bits, rounded to nearest with ties to the even significand. A result of
  \<open>2\<^sup>1\<^sup>0\<^sup>2\<^sup>4\<close> or more stands for \<^verbatim>\<open>Infinity\<close>.
\<close>

function bit_length :: "int \<Rightarrow> nat" where
  "bit_length n = (if n \<le> 0 then 0 else Suc (bit_length (n div 2)))"
  by pat_completeness auto
termination
  by (relation "measure nat") auto

definition to_double :: "int \<Rightarrow> int" where
  "to_double m =
     (if m < 9007199254740992 then m
      else
        let e = bit_length m - 53;
            q = m div 2 ^ e;
            r = m mod 2 ^ e;
            half = 2 ^ (e - 1)
        in (if r > half \<or> (r = half \<and> odd q) then q + 1 else q) * 2 ^ e)"

text \<open>
  \<^verbatim>\<open>Number::toString\<close> of the language standard, for a double \<open>m\<close> that is a positive
  integer: the integers \<open>s\<close> of \<open>k\<close> digits and \<open>n\<close> with \<open>s \<times> 10\<^bsup>n-k\<^esup>\<close> rounding to \<open>m\<close>, for the
  least such \<open>k\<close>; among several \<open>s\<close> the one nearest to \<open>m\<close>, the even one on a tie. Seventeen
  digits always identify a double. Up to 21 digits the number is written in full, beyond
  in exponent notation. Below \<open>2\<^sup>5\<^sup>3\<close> every digit is significant and the text is the
  decimal numeral.
\<close>

definition significands :: "int \<Rightarrow> nat \<Rightarrow> (int \<times> nat) list" where
  "significands m k =
     concat (map (\<lambda>n.
       concat (map (\<lambda>s. if 10 ^ (k - 1) \<le> s \<and> s < 10 ^ k \<and> to_double (s * 10 ^ (n - k)) = m then [(s, n)] else [])
         [m div 10 ^ (n - k), m div 10 ^ (n - k) + 1]))
       (filter (\<lambda>n. k \<le> n) [length (decimal_digits m), length (decimal_digits m) + 1]))"

definition closer :: "int \<Rightarrow> nat \<Rightarrow> (int \<times> nat) \<Rightarrow> (int \<times> nat) \<Rightarrow> (int \<times> nat)" where
  "closer m k a b =
     (let da = \<bar>fst a * 10 ^ (snd a - k) - m\<bar>; db = \<bar>fst b * 10 ^ (snd b - k) - m\<bar>
      in if db < da \<or> (db = da \<and> even (fst b)) then b else a)"

fun shortest :: "nat \<Rightarrow> int \<Rightarrow> nat \<Rightarrow> (int \<times> nat)" where
  "shortest 0 m k = (m, length (decimal_digits m))"
| "shortest (Suc fuel) m k =
     (case significands m k of
        [] \<Rightarrow> shortest fuel m (Suc k)
      | c # cs \<Rightarrow> foldl (closer m k) c cs)"

definition Number_toString :: "int \<Rightarrow> string" where
  "Number_toString i =
     (let sign = (if i < 0 then ''-'' else []); m = to_double \<bar>i\<bar> in
      if m < 9007199254740992 then sign @ decimal_digits m
      else if 2 ^ 1024 \<le> m then sign @ ''Infinity''
      else
        let (s, n) = shortest 17 m 1; ds = decimal_digits s in
        if n \<le> 21 then sign @ ds @ replicate (n - length ds) CHR ''0''
        else sign @ [hd ds] @ (if tl ds = [] then [] else ''.'' @ tl ds) @ ''e+'' @ decimal_digits (int n - 1))"

fun ToString :: "jsval \<Rightarrow> string" where
  "ToString Undefined = ''undefined''"
| "ToString (Num n) = Number_toString n"
| "ToString (Str s) = s"

text \<open>\<^verbatim>\<open>a || b\<close>: the left operand when it is truthy, the right one otherwise.\<close>

definition logical_or :: "jsval \<Rightarrow> jsval \<Rightarrow> jsval" where
  "logical_or a b = (if truthy a then a else b)"

fun opt_str :: "string option \<Rightarrow> jsval" where
  "opt_str None = Undefined"
| "opt_str (Some s) = Str s"

fun opt_num :: "int option \<Rightarrow> jsval" where
  "opt_num None = Undefined"
| "opt_num (Some n) = Num n"

section \<open>String.prototype.replace with a global alternation\<close>

text \<open>
  Both patterns of the source are a global alternation of literal texts,
  \<^verbatim>\<open>/(__(ref_block_(num|prefix)|expiration|signer))/g\<close> and \<^verbatim>\<open>/({{(sig|id|block|txn)}})/g\<close>.
  An alternative is a pair: the text it matches and the capture group handed to the
  callback. The scan goes left to right; at each position the first alternative that
  matches wins, its replacement is emitted and the scan resumes behind the match.
\<close>

fun match_alternative :: "(string \<times> string) list \<Rightarrow> string \<Rightarrow> (string \<times> string) option" where
  "match_alternative [] s = None"
| "match_alternative ((t, g) # alts) s = (if prefix t s then Some (t, g) else match_alternative alts s)"

function replace_global :: "(string \<times> string) list \<Rightarrow> (string \<Rightarrow> string) \<Rightarrow> string \<Rightarrow> string" where
  "replace_global alts f [] = []"
| "replace_global alts f (c # cs) =
     (case match_alternative alts (c # cs) of
        Some (t, g) \<Rightarrow> f g @ replace_global alts f (drop (length t - 1) cs)
      | None \<Rightarrow> c # replace_global alts f cs)"
  by pat_completeness auto
termination
  by (relation "measure (\<lambda>(alts, f, s). length s)") auto

section \<open>Placeholder resolver\<close>

record parameters =
  signer :: "string option"
  callback :: "string option"
  no_broadcast :: "bool option"

record resolve_options =
  ref_block_num :: int
  ref_block_prefix :: int
  expiration :: string
  signers :: "string list"
  preferred_signer :: string

record resolve_result =
  result_signer :: string
  result_tx :: json

definition RESOLVE_PATTERN :: "(string \<times> string) list" where
  "RESOLVE_PATTERN =
     [(''__ref_block_num'', ''__ref_block_num''),
      (''__ref_block_prefix'', ''__ref_block_prefix''),
      (''__expiration'', ''__expiration''),
      (''__signer'', ''__signer'')]"

text \<open>\<^verbatim>\<open>ctx[m]\<close> on an object literal: the value stored under the key, undefined without one.\<close>

definition lookup :: "(string \<times> jsval) list \<Rightarrow> string \<Rightarrow> jsval" where
  "lookup ctx m = (case map_of ctx m of None \<Rightarrow> Undefined | Some v \<Rightarrow> v)"

text \<open>
  An object is the list of its own properties in the order \<^verbatim>\<open>Object.entries\<close> yields
  them: the array indexes (canonical numerals below \<open>2\<^sup>3\<^sup>2 - 1\<close>) in ascending order, then
  the other keys in the order of their creation. Storing under a key the object has
  keeps the key's place.
\<close>

definition ascii_digit :: "char \<Rightarrow> bool" where
  "ascii_digit c = (48 \<le> (of_char c :: nat) \<and> (of_char c :: nat) \<le> 57)"

definition digits_value :: "string \<Rightarrow> int" where
  "digits_value ds = foldl (\<lambda>acc c. acc * 10 + ((of_char c :: int) - 48)) 0 ds"

definition array_index :: "string \<Rightarrow> int option" where
  "array_index k =
     (if k \<noteq> [] \<and> list_all ascii_digit k \<and> (k = ''0'' \<or> hd k \<noteq> CHR ''0'') \<and> digits_value k < 4294967295
      then Some (digits_value k) else None)"

fun obj_update :: "string \<Rightarrow> json \<Rightarrow> (string \<times> json) list \<Rightarrow> (string \<times> json) list" where
  "obj_update k v [] = []"
| "obj_update k v ((k', v') # kvs) = (if k = k' then (k, v) # kvs else (k', v') # obj_update k v kvs)"

fun obj_insert_index :: "int \<Rightarrow> string \<Rightarrow> json \<Rightarrow> (string \<times> json) list \<Rightarrow> (string \<times> json) list" where
  "obj_insert_index i k v [] = [(k, v)]"
| "obj_insert_index i k v ((k', v') # kvs) =
     (case array_index k' of
        Some j \<Rightarrow> if j < i then (k', v') # obj_insert_index i k v kvs else (k, v) # (k', v') # kvs
      | None \<Rightarrow> (k, v) # (k', v') # kvs)"

definition obj_define :: "string \<Rightarrow> json \<Rightarrow> (string \<times> json) list \<Rightarrow> (string \<times> json) list" where
  "obj_define k v kvs =
     (if k \<in> set (map fst kvs) then obj_update k v kvs
      else case array_index k of
             Some i \<Rightarrow> obj_insert_index i k v kvs
           | None \<Rightarrow> kvs @ [(k, v)])"

text \<open>
  \<^verbatim>\<open>rv[k] = v\<close> on a plain object creates or overwrites the own property, except that the
  key \<^verbatim>\<open>__proto__\<close> reaches the prototype setter and creates no own property.
\<close>

definition obj_set :: "(string \<times> json) list \<Rightarrow> string \<Rightarrow> json \<Rightarrow> (string \<times> json) list" where
  "obj_set rv k v = (if k = ''__proto__'' then rv else obj_define k v rv)"


text \<open>
  \<^verbatim>\<open>walk\<close>: a string goes through \<^verbatim>\<open>replace\<close>, an array through \<^verbatim>\<open>map\<close>, an object is
  rebuilt entry by entry in the order of \<^verbatim>\<open>Object.entries\<close>, anything else is returned.
\<close>

fun walk :: "(string \<times> jsval) list \<Rightarrow> json \<Rightarrow> json"
  and walk_array :: "(string \<times> jsval) list \<Rightarrow> json list \<Rightarrow> json list"
  and walk_entries :: "(string \<times> jsval) list \<Rightarrow> (string \<times> json) list \<Rightarrow> (string \<times> json) list \<Rightarrow> (string \<times> json) list"
where
  "walk ctx (JString s) = JString (replace_global RESOLVE_PATTERN (\<lambda>m. ToString (lookup ctx m)) s)"
| "walk ctx (JArray vs) = JArray (walk_array ctx vs)"
| "walk ctx (JObject kvs) = JObject (walk_entries ctx kvs [])"
| "walk ctx JNull = JNull"
| "walk ctx (JBool b) = JBool b"
| "walk ctx (JNumber n) = JNumber n"
| "walk_array ctx [] = []"
| "walk_array ctx (v # vs) = walk ctx v # walk_array ctx vs"
| "walk_entries ctx [] rv = rv"
| "walk_entries ctx ((k, v) # kvs) rv = walk_entries ctx kvs (obj_set rv k (walk ctx v))"

definition resolveTransaction :: "json \<Rightarrow> parameters \<Rightarrow> resolve_options \<Rightarrow> resolve_result outcome" where
  "resolveTransaction utx params options =
     (let signer = ToString (logical_or (opt_str (signer params)) (Str (preferred_signer options))) in
      if \<not> List.member (signers options) signer then Throws (SignerUnavailable signer)
      else
        let ctx = [(''__ref_block_num'', Num (ref_block_num options)),
                   (''__ref_block_prefix'', Num (ref_block_prefix options)),
                   (''__expiration'', Str (expiration options)),
                   (''__signer'', Str signer)];
            tx = walk ctx utx
        in Returns \<lparr>result_signer = signer, result_tx = tx\<rparr>)"

section \<open>Callback resolver\<close>

record transaction_confirmation =
  sig :: string
  id' :: "string option"
  block :: "int option"
  txn :: "int option"

definition CALLBACK_RESOLVE_PATTERN :: "(string \<times> string) list" where
  "CALLBACK_RESOLVE_PATTERN =
     [(''{{sig}}'', ''sig''), (''{{id}}'', ''id''), (''{{block}}'', ''block''), (''{{txn}}'', ''txn'')]"

definition confirmation_fields :: "transaction_confirmation \<Rightarrow> (string \<times> jsval) list" where
  "confirmation_fields ctx =
     [(''sig'', Str (sig ctx)), (''id'', opt_str (id' ctx)),
      (''block'', opt_num (block ctx)), (''txn'', opt_num (txn ctx))]"

definition resolveCallback :: "string \<Rightarrow> transaction_confirmation \<Rightarrow> string" where
  "resolveCallback url ctx =
     replace_global CALLBACK_RESOLVE_PATTERN
       (\<lambda>m. ToString (logical_or (lookup (confirmation_fields ctx) m) (Str ''''))) url"

section \<open>Base64u codec\<close>

text \<open>
  \<^verbatim>\<open>btoa\<close> and \<^verbatim>\<open>atob\<close> as the HTML standard defines them. \<^verbatim>\<open>btoa\<close> is padded Base64 of
  the code units. \<^verbatim>\<open>atob\<close> is the forgiving decoder: it drops ASCII whitespace, drops
  one or two trailing \<^verbatim>\<open>=\<close> when the length is a multiple of four, fails on a length of
  one modulo four and on any character outside the alphabet, and discards the unused low
  bits of a final group of two or three characters. \<open>None\<close> is the thrown
  \<^verbatim>\<open>InvalidCharacterError\<close>.
\<close>

definition b64_alphabet :: string where
  "b64_alphabet = ''ABCDEFGHIJKLMNOPQRSTUVWXYZabcdefghijklmnopqrstuvwxyz0123456789+/''"

definition b64_char :: "nat \<Rightarrow> char" where
  "b64_char n = b64_alphabet ! n"



fun btoa :: "string \<Rightarrow> string" where
  "btoa [] = []"
| "btoa [a] =
     (let x = (of_char a :: nat)
      in [b64_char (x div 4), b64_char (x mod 4 * 16), CHR ''='', CHR ''=''])"
| "btoa [a, b] =
     (let x = (of_char a :: nat); y = (of_char b :: nat)
      in [b64_char (x div 4), b64_char (x mod 4 * 16 + y div 16), b64_char (y mod 16 * 4), CHR ''=''])"
| "btoa (a # b # c # rest) =
     (let x = (of_char a :: nat); y = (of_char b :: nat); z = (of_char c :: nat)
      in [b64_char (x div 4), b64_char (x mod 4 * 16 + y div 16),
          b64_char (y mod 16 * 4 + z div 64), b64_char (z mod 64)] @ btoa rest)"





text \<open>
  \<^verbatim>\<open>str.replace(/(a|b|c)/g, (m) => B64U_LOOKUP[m])\<close> for one-character alternatives: each
  matching character is replaced by its entry of the table.
\<close>

definition B64U_LOOKUP :: "(char \<times> char) list" where
  "B64U_LOOKUP =
     [(CHR ''/'', CHR ''_''), (CHR ''_'', CHR ''/''), (CHR ''+'', CHR ''-''),
      (CHR ''-'', CHR ''+''), (CHR ''='', CHR ''.''), (CHR ''.'', CHR ''='')]"

definition replace_chars :: "string \<Rightarrow> (char \<times> char) list \<Rightarrow> string \<Rightarrow> string" where
  "replace_chars pat table s =
     map (\<lambda>c. if c \<in> set pat then (case map_of table c of Some r \<Rightarrow> r | None \<Rightarrow> c) else c) s"

definition b64uEnc :: "string \<Rightarrow> string" where
  "b64uEnc str = replace_chars ''+/='' B64U_LOOKUP (btoa str)"


text \<open>
  The unpadded form of \<^verbatim>\<open>btoa\<close>, for the proofs: the six-bit groups of the bytes, and the
  padding that \<^verbatim>\<open>btoa\<close> appends to them.
\<close>

fun b64_sextets :: "string \<Rightarrow> nat list" where
  "b64_sextets [] = []"
| "b64_sextets [a] =
     (let x = (of_char a :: nat) in [x div 4, x mod 4 * 16])"
| "b64_sextets [a, b] =
     (let x = (of_char a :: nat); y = (of_char b :: nat)
      in [x div 4, x mod 4 * 16 + y div 16, y mod 16 * 4])"
| "b64_sextets (a # b # c # rest) =
     (let x = (of_char a :: nat); y = (of_char b :: nat); z = (of_char c :: nat)
      in [x div 4, x mod 4 * 16 + y div 16, y mod 16 * 4 + z div 64, z mod 64] @ b64_sextets rest)"

fun b64_padding :: "string \<Rightarrow> string" where
  "b64_padding [] = []"
| "b64_padding [a] = ''==''"
| "b64_padding [a, b] = ''=''"
| "b64_padding (a # b # c # rest) = b64_padding rest"

section \<open>URLSearchParams\<close>

text \<open>
  The \<^verbatim>\<open>application/x-www-form-urlencoded\<close> serializer and parser of the URL standard.
  The serializer writes the UTF-8 bytes of a value: a code unit below 128 is one byte,
  one from 128 to 255 is two. It keeps ASCII alphanumerics and \<^verbatim>\<open>*-._\<close>, writes a space
  as \<^verbatim>\<open>+\<close> and percent-encodes every other byte.
\<close>

definition hex_digit :: "nat \<Rightarrow> char" where
  "hex_digit n = ''0123456789ABCDEF'' ! n"

definition percent_byte :: "nat \<Rightarrow> string" where
  "percent_byte b = [CHR ''%'', hex_digit (b div 16), hex_digit (b mod 16)]"

definition utf8_unit :: "char \<Rightarrow> nat list" where
  "utf8_unit c = (let n = (of_char c :: nat) in if n < 128 then [n] else [192 + n div 64, 128 + n mod 64])"

definition percent_utf8 :: "char \<Rightarrow> string" where
  "percent_utf8 c = concat (map percent_byte (utf8_unit c))"

definition ascii_alpha :: "char \<Rightarrow> bool" where
  "ascii_alpha c =
     (let n = (of_char c :: nat) in (65 \<le> n \<and> n \<le> 90) \<or> (97 \<le> n \<and> n \<le> 122))"

definition ascii_alphanumeric :: "char \<Rightarrow> bool" where
  "ascii_alphanumeric c = (ascii_digit c \<or> ascii_alpha c)"

definition urlencode_unit :: "char \<Rightarrow> string" where
  "urlencode_unit c =
     (if c = CHR '' '' then ''+''
      else if ascii_alphanumeric c \<or> c \<in> set ''*-._'' then [c]
      else percent_utf8 c)"

definition urlencode :: "string \<Rightarrow> string" where
  "urlencode s = concat (map urlencode_unit s)"

fun join :: "string \<Rightarrow> string list \<Rightarrow> string" where
  "join sep [] = []"
| "join sep [x] = x"
| "join sep (x # y # ys) = x @ sep @ join sep (y # ys)"

text \<open>\<^verbatim>\<open>out.set(name, value)\<close>: the first pair of that name takes the value and the
  others go; without one the pair is appended.\<close>

fun URLSearchParams_set :: "(string \<times> string) list \<Rightarrow> string \<Rightarrow> string \<Rightarrow> (string \<times> string) list" where
  "URLSearchParams_set [] k v = [(k, v)]"
| "URLSearchParams_set ((k', v') # es) k v =
     (if k' = k then (k, v) # filter (\<lambda>e. fst e \<noteq> k) es else (k', v') # URLSearchParams_set es k v)"

definition URLSearchParams_toString :: "(string \<times> string) list \<Rightarrow> string" where
  "URLSearchParams_toString entries =
     join ''&'' (map (\<lambda>e. urlencode (fst e) @ ''='' @ urlencode (snd e)) entries)"


definition hex_value :: "char \<Rightarrow> nat option" where
  "hex_value c =
     (let n = (of_char c :: nat)
      in if 48 \<le> n \<and> n \<le> 57 then Some (n - 48)
         else if 65 \<le> n \<and> n \<le> 70 then Some (n - 55)
         else if 97 \<le> n \<and> n \<le> 102 then Some (n - 87)
         else None)"







section \<open>URL parser\<close>

text \<open>
  \<^verbatim>\<open>new URL(input)\<close> as the URL standard parses an absolute URL without a base, for the
  schemes that are not special. It throws (\<open>MalformedUri\<close>) without a scheme and on a
  forbidden host code point. An authority with credentials, a port or an IPv6 literal
  and the special schemes (\<^verbatim>\<open>http\<close>, \<^verbatim>\<open>https\<close>, \<^verbatim>\<open>ws\<close>, \<^verbatim>\<open>wss\<close>, \<^verbatim>\<open>ftp\<close>, \<^verbatim>\<open>file\<close>) are outside
  the model.
\<close>

record url =
  protocol :: string
  host :: string
  pathname :: string
  searchParams :: "(string option \<times> string option) list"




















section \<open>JSON.stringify and JSON.parse\<close>

text \<open>
  \<^verbatim>\<open>JSON.stringify(data, null, 0)\<close> writes the compact text: no whitespace, the members of
  an object in the order of its properties, a string quoted with the short escapes and
  \<^verbatim>\<open>\u00xx\<close> for the other control characters, a number as \<^verbatim>\<open>String\<close> writes it and
  \<^verbatim>\<open>null\<close> for an infinite one.
\<close>

definition lower_hex_digit :: "nat \<Rightarrow> char" where
  "lower_hex_digit n = ''0123456789abcdef'' ! n"

definition quote_unit :: "char \<Rightarrow> string" where
  "quote_unit c =
     (if c = CHR 0x22 then [CHR 0x5C, CHR 0x22]
      else if c = CHR 0x5C then [CHR 0x5C, CHR 0x5C]
      else if c = CHR 0x08 then [CHR 0x5C, CHR ''b'']
      else if c = CHR 0x0C then [CHR 0x5C, CHR ''f'']
      else if c = CHR 0x0A then [CHR 0x5C, CHR ''n'']
      else if c = CHR 0x0D then [CHR 0x5C, CHR ''r'']
      else if c = CHR 0x09 then [CHR 0x5C, CHR ''t'']
      else if (of_char c :: nat) < 32
      then [CHR 0x5C, CHR ''u'', CHR ''0'', CHR ''0'',
            lower_hex_digit ((of_char c :: nat) div 16), lower_hex_digit ((of_char c :: nat) mod 16)]
      else [c])"

definition quote :: "string \<Rightarrow> string" where
  "quote s = [CHR 0x22] @ concat (map quote_unit s) @ [CHR 0x22]"

fun stringify :: "json \<Rightarrow> string"
  and stringify_elements :: "json list \<Rightarrow> string"
  and stringify_members :: "(string \<times> json) list \<Rightarrow> string"
where
  "stringify JNull = ''null''"
| "stringify (JBool b) = (if b then ''true'' else ''false'')"
| "stringify (JNumber n) = (if 2 ^ 1024 \<le> to_double \<bar>n\<bar> then ''null'' else Number_toString n)"
| "stringify (JString s) = quote s"
| "stringify (JArray vs) = ''['' @ stringify_elements vs @ '']''"
| "stringify (JObject kvs) = ''{'' @ stringify_members kvs @ ''}''"
| "stringify_elements [] = []"
| "stringify_elements [v] = stringify v"
| "stringify_elements (v # w # vs) = stringify v @ '','' @ stringify_elements (w # vs)"
| "stringify_members [] = []"
| "stringify_members [(k, v)] = quote k @ '':'' @ stringify v"
| "stringify_members ((k, v) # m # ms) = quote k @ '':'' @ stringify v @ '','' @ stringify_members (m # ms)"

definition JSON_stringify :: "json \<Rightarrow> string" where
  "JSON_stringify data = stringify data"

text \<open>
  \<^verbatim>\<open>JSON.parse\<close>: the JSON grammar by recursive descent. It throws (\<open>SyntaxError\<close>) on a
  text that is not JSON. A numeral with a fraction or an exponent, an integer beyond
  \<open>2\<^sup>5\<^sup>3\<close>, minus zero and a \<^verbatim>\<open>\u\<close> escape from 256 on are outside the model. The
  recursion is bounded by a counter that the length of the text covers.
\<close>

definition json_whitespace :: "char \<Rightarrow> bool" where
  "json_whitespace c = (c \<in> set [CHR 0x09, CHR 0x0A, CHR 0x0D, CHR '' ''])"

definition skip_ws :: "string \<Rightarrow> string" where
  "skip_ws s = dropWhile json_whitespace s"

definition parse_number :: "string \<Rightarrow> (json \<times> string) outcome" where
  "parse_number s =
     (let negative = prefix ''-'' s;
          body = (if negative then drop 1 s else s);
          ds = (if prefix ''0'' body then ''0'' else takeWhile ascii_digit body);
          r = drop (length ds) body
      in if ds = [] then Throws SyntaxError
         else if prefix ''.'' r \<or> prefix ''e'' r \<or> prefix ''E'' r then Unmodelled
         else if digits_value ds > 9007199254740992 \<or> (negative \<and> digits_value ds = 0) then Unmodelled
         else Returns (JNumber (if negative then - digits_value ds else digits_value ds), r))"

definition escapes :: "(char \<times> char) list" where
  "escapes =
     [(CHR 0x22, CHR 0x22), (CHR 0x5C, CHR 0x5C), (CHR ''/'', CHR ''/''),
      (CHR ''b'', CHR 0x08), (CHR ''f'', CHR 0x0C), (CHR ''n'', CHR 0x0A),
      (CHR ''r'', CHR 0x0D), (CHR ''t'', CHR 0x09)]"

fun parse_string :: "string \<Rightarrow> (string \<times> string) outcome" where
  "parse_string [] = Throws SyntaxError"
| "parse_string (c # cs) =
     (if c = CHR 0x22 then Returns ([], cs)
      else if (of_char c :: nat) < 32 then Throws SyntaxError
      else if c \<noteq> CHR 0x5C then and_then (parse_string cs) (\<lambda>(str, r). Returns (c # str, r))
      else
        (case cs of
           [] \<Rightarrow> Throws SyntaxError
         | e # r \<Rightarrow>
             if e = CHR ''u'' then
               (case r of
                  h1 # h2 # h3 # h4 # r' \<Rightarrow>
                    (case (hex_value h1, hex_value h2, hex_value h3, hex_value h4) of
                       (Some a, Some b, Some x, Some y) \<Rightarrow>
                         if a = 0 \<and> b = 0
                         then and_then (parse_string r') (\<lambda>(str, r''). Returns (char_of (x * 16 + y) # str, r''))
                         else Unmodelled
                     | _ \<Rightarrow> Throws SyntaxError)
                | _ \<Rightarrow> Throws SyntaxError)
             else
               (case map_of escapes e of
                  None \<Rightarrow> Throws SyntaxError
                | Some x \<Rightarrow> and_then (parse_string r) (\<lambda>(str, r'). Returns (x # str, r')))))"

fun parse_value :: "nat \<Rightarrow> string \<Rightarrow> (json \<times> string) outcome"
  and parse_elements :: "nat \<Rightarrow> string \<Rightarrow> json list \<Rightarrow> (json \<times> string) outcome"
  and parse_members :: "nat \<Rightarrow> string \<Rightarrow> (string \<times> json) list \<Rightarrow> (json \<times> string) outcome"
where
  "parse_value 0 s = Unmodelled"
| "parse_value (Suc n) s =
     (case skip_ws s of
        [] \<Rightarrow> Throws SyntaxError
      | c # cs \<Rightarrow>
          if c = CHR ''{'' then
            (if prefix ''}'' (skip_ws cs) then Returns (JObject [], drop 1 (skip_ws cs))
             else parse_members n cs [])
          else if c = CHR ''['' then
            (if prefix '']'' (skip_ws cs) then Returns (JArray [], drop 1 (skip_ws cs))
             else parse_elements n cs [])
          else if c = CHR 0x22 then and_then (parse_string cs) (\<lambda>(str, r). Returns (JString str, r))
          else if prefix ''null'' (c # cs) then Returns (JNull, drop 4 (c # cs))
          else if prefix ''true'' (c # cs) then Returns (JBool True, drop 4 (c # cs))
          else if prefix ''false'' (c # cs) then Returns (JBool False, drop 5 (c # cs))
          else parse_number (c # cs))"
| "parse_elements 0 s acc = Unmodelled"
| "parse_elements (Suc n) s acc =
     and_then (parse_value n s) (\<lambda>(v, r).
       case skip_ws r of
         [] \<Rightarrow> Throws SyntaxError
       | c # r' \<Rightarrow>
           if c = CHR '','' then parse_elements n r' (acc @ [v])
           else if c = CHR '']'' then Returns (JArray (acc @ [v]), r')
           else Throws SyntaxError)"
| "parse_members 0 s acc = Unmodelled"
| "parse_members (Suc n) s acc =
     (case skip_ws s of
        [] \<Rightarrow> Throws SyntaxError
      | q # r \<Rightarrow>
          if q \<noteq> CHR 0x22 then Throws SyntaxError
          else and_then (parse_string r) (\<lambda>(k, r1).
            case skip_ws r1 of
              [] \<Rightarrow> Throws SyntaxError
            | c # r2 \<Rightarrow>
                if c \<noteq> CHR '':'' then Throws SyntaxError
                else and_then (parse_value n r2) (\<lambda>(v, r3).
                  case skip_ws r3 of
                    [] \<Rightarrow> Throws SyntaxError
                  | d # r4 \<Rightarrow>
                      if d = CHR '','' then parse_members n r4 (obj_define k v acc)
                      else if d = CHR ''}'' then Returns (JObject (obj_define k v acc), r4)
                      else Throws SyntaxError)))"


section \<open>URI decoder\<close>






section \<open>URI encoder\<close>

text \<open>\<^verbatim>\<open>if (params.signer)\<close>: an optional string is truthy when it is set and not empty.\<close>

definition encodeParameters :: "parameters \<Rightarrow> string" where
  "encodeParameters params =
     (let out = [];
          out = (if no_broadcast params = Some True then URLSearchParams_set out ''nb'' [] else out);
          out = (if truthy (opt_str (signer params))
                 then URLSearchParams_set out ''s'' (ToString (opt_str (signer params))) else out);
          out = (if truthy (opt_str (callback params))
                 then URLSearchParams_set out ''cb'' (b64uEnc (ToString (opt_str (callback params)))) else out);
          qs = URLSearchParams_toString out
      in if length qs > 0 then ''?'' @ qs else qs)"

definition encodeJson :: "json \<Rightarrow> string" where
  "encodeJson data = b64uEnc (JSON_stringify data)"

definition encodeTx :: "json \<Rightarrow> parameters \<Rightarrow> string" where
  "encodeTx tx params = ''steem://sign/tx/'' @ encodeJson tx @ encodeParameters params"

definition encodeOp :: "json \<Rightarrow> parameters \<Rightarrow> string" where
  "encodeOp op params = ''steem://sign/op/'' @ encodeJson op @ encodeParameters params"

definition encodeOps :: "json \<Rightarrow> parameters \<Rightarrow> string" where
  "encodeOps ops params = ''steem://sign/ops/'' @ encodeJson ops @ encodeParameters params"

section \<open>Properties of the placeholder resolver\<close>





lemma resolve_no_match_start:
  "c \<noteq> CHR ''_'' \<Longrightarrow> match_alternative RESOLVE_PATTERN (c # cs) = None"
  by (simp add: RESOLVE_PATTERN_def)



lemma replace_resolve_prefix:
  "CHR ''_'' \<notin> set pre \<Longrightarrow>
   replace_global RESOLVE_PATTERN f (pre @ s) = pre @ replace_global RESOLVE_PATTERN f s"
  by (induction pre) (auto simp: resolve_no_match_start)











text \<open>
  C4, as the code has it. The signer is \<open>params.signer || options.preferred_signer\<close>: the
  requested signer when it is set and not the empty string, the preferred signer
  otherwise. The call throws \<open>SignerUnavailable\<close> exactly when that signer is not among
  \<open>options.signers\<close>, and a returned signer is always among them.
\<close>

theorem resolveTransaction_signer:
  "(signer p = Some s \<and> s \<noteq> [] \<longrightarrow>
      (s \<in> set (signers opts) \<longrightarrow> (\<exists>t. resolveTransaction utx p opts = Returns \<lparr>result_signer = s, result_tx = t\<rparr>)) \<and>
      (s \<notin> set (signers opts) \<longrightarrow> resolveTransaction utx p opts = Throws (SignerUnavailable s))) \<and>
   (signer p = None \<or> signer p = Some [] \<longrightarrow>
      (preferred_signer opts \<in> set (signers opts) \<longrightarrow>
         (\<exists>t. resolveTransaction utx p opts = Returns \<lparr>result_signer = preferred_signer opts, result_tx = t\<rparr>)) \<and>
      (preferred_signer opts \<notin> set (signers opts) \<longrightarrow>
         resolveTransaction utx p opts = Throws (SignerUnavailable (preferred_signer opts)))) \<and>
   (\<forall>r. resolveTransaction utx p opts = Returns r \<longrightarrow> result_signer r \<in> set (signers opts))"
  by (cases "signer p")
     (auto simp: resolveTransaction_def logical_or_def Let_def)

theorem resolveTransaction_signer_witness:
  "resolveTransaction JNull \<lparr>signer = Some ''bar'', callback = None, no_broadcast = None\<rparr>
     \<lparr>ref_block_num = 1, ref_block_prefix = 2, expiration = ''e'', signers = [''foo'', ''bar''], preferred_signer = ''foo''\<rparr>
     = Returns \<lparr>result_signer = ''bar'', result_tx = JNull\<rparr> \<and>
   resolveTransaction JNull \<lparr>signer = Some ''qux'', callback = None, no_broadcast = None\<rparr>
     \<lparr>ref_block_num = 1, ref_block_prefix = 2, expiration = ''e'', signers = [''foo'', ''bar''], preferred_signer = ''foo''\<rparr>
     = Throws (SignerUnavailable ''qux'') \<and>
   resolveTransaction JNull \<lparr>signer = None, callback = None, no_broadcast = None\<rparr>
     \<lparr>ref_block_num = 1, ref_block_prefix = 2, expiration = ''e'', signers = [''foo'', ''bar''], preferred_signer = ''foo''\<rparr>
     = Returns \<lparr>result_signer = ''foo'', result_tx = JNull\<rparr>"
  using resolveTransaction_signer [of "\<lparr>signer = Some ''qux'', callback = None, no_broadcast = None\<rparr>" "''qux''"
      "\<lparr>ref_block_num = 1, ref_block_prefix = 2, expiration = ''e'', signers = [''foo'', ''bar''], preferred_signer = ''foo''\<rparr>" JNull]
  by (simp add: resolveTransaction_def logical_or_def Let_def)

text \<open>
  C4 as stated fails when the requested signer is set to the empty string (what
  \<open>decode\<close> returns for a query \<^verbatim>\<open>?s=\<close>): the empty string is not among the signers, yet
  the call returns with the preferred signer.
\<close>

theorem resolveTransaction_empty_signer_counterexample:
  "resolveTransaction JNull \<lparr>signer = Some [], callback = None, no_broadcast = None\<rparr>
     \<lparr>ref_block_num = 1, ref_block_prefix = 2, expiration = ''e'', signers = [''foo'', ''bar''], preferred_signer = ''foo''\<rparr>
     = Returns \<lparr>result_signer = ''foo'', result_tx = JNull\<rparr> \<and>
   [] \<notin> set (signers \<lparr>ref_block_num = 1, ref_block_prefix = 2, expiration = ''e'', signers = [''foo'', ''bar''], preferred_signer = ''foo''\<rparr>)"
  by (simp add: resolveTransaction_def logical_or_def Let_def)

section \<open>Properties of the callback resolver\<close>

text \<open>
  C8 holds for a field that is absent and for one that is present and truthy, but the
  code writes \<open>ctx[m] || ''\<close>: a block number or a transaction index of zero is present
  and is replaced by the empty string instead of \<open>0\<close>.
\<close>

theorem resolveCallback_zero_index:
  "resolveCallback ''https://x/cb?b={{block}}&n={{txn}}''
     \<lparr>sig = ''ab'', id' = Some ''cd'', block = Some 5, txn = Some 0\<rparr>
     = ''https://x/cb?b=5&n=''"
  by code_simp

section \<open>Properties of the URI decoder\<close>






lemma and_then_Returns:
  "and_then m f = Returns r \<longleftrightarrow> (\<exists>x. m = Returns x \<and> f x = Returns r)"
  by (cases m) auto

lemma and_then_Throws:
  "and_then m f = Throws e \<longleftrightarrow> m = Throws e \<or> (\<exists>x. m = Returns x \<and> f x = Throws e)"
  by (cases m) auto















section \<open>Properties of the Base64u codec\<close>

lemma b64_alphabet_length: "length b64_alphabet = 64"
  by (simp add: b64_alphabet_def)




lemma b64_char_in_alphabet: "n < 64 \<Longrightarrow> b64_char n \<in> set b64_alphabet"
  by (simp add: b64_char_def b64_alphabet_length)


lemma div_bounds:
  fixes x :: nat
  assumes "x < 256"
  shows "x div 16 < 16" "x div 64 < 4" "x div 4 < 64"
  using assms by (simp_all add: less_mult_imp_div_less)



lemma sextet_bounds:
  fixes x y z :: nat
  assumes "x < 256" "y < 256" "z < 256"
  shows "x div 4 < 64" "x mod 4 * 16 + y div 16 < 64" "y mod 16 * 4 + z div 64 < 64" "z mod 64 < 64"
    "x mod 4 * 16 < 64" "y mod 16 * 4 < 64"
proof -
  have a: "x mod 4 < 4" "y mod 16 < 16" by simp_all
  from a div_bounds(1) [OF assms(2)] div_bounds(2) [OF assms(3)] div_bounds(3) [OF assms(1)]
  show "x div 4 < 64" "x mod 4 * 16 + y div 16 < 64" "y mod 16 * 4 + z div 64 < 64" "z mod 64 < 64"
    "x mod 4 * 16 < 64" "y mod 16 * 4 < 64"
    by linarith+
qed

lemma b64_sextets_bound: "n \<in> set (b64_sextets s) \<Longrightarrow> n < 64"
proof (induction s arbitrary: n rule: b64_sextets.induct)
  case 1
  then show ?case by simp
next
  case (2 a)
  have a: "(of_char a :: nat) < 256" by simp
  from 2 sextet_bounds(1,5) [OF a a a] show ?case by (auto simp: Let_def)
next
  case (3 a b)
  have a: "(of_char a :: nat) < 256" and b: "(of_char b :: nat) < 256" by simp_all
  from 3 sextet_bounds(1,2,6) [OF a b b] show ?case by (auto simp: Let_def)
next
  case (4 a b c rest)
  have a: "(of_char a :: nat) < 256" and b: "(of_char b :: nat) < 256"
    and c: "(of_char c :: nat) < 256" by simp_all
  from 4 sextet_bounds(1,2,3,4) [OF a b c] show ?case by (auto simp: Let_def)
qed



lemma btoa_sextets: "btoa s = map b64_char (b64_sextets s) @ b64_padding s"
  by (induction s rule: btoa.induct) (simp_all add: Let_def)


lemma b64_body_alphabet: "c \<in> set (map b64_char (b64_sextets s)) \<Longrightarrow> c \<in> set b64_alphabet"
  using b64_sextets_bound b64_char_in_alphabet by auto


lemma b64_padding_cases: "b64_padding s = [] \<or> b64_padding s = ''='' \<or> b64_padding s = ''==''"
  by (induction s rule: b64_padding.induct) simp_all






lemma btoa_chars: "c \<in> set (btoa s) \<Longrightarrow> c \<in> set b64_alphabet \<or> c = CHR ''=''"
  using b64_body_alphabet [of c s] b64_padding_cases [of s] by (auto simp: btoa_sextets)


lemma alphabet_chars: "c \<in> set b64_alphabet \<Longrightarrow> c = CHR ''+'' \<or> c = CHR ''/'' \<or> ascii_alphanumeric c"
proof -
  have "list_all (\<lambda>c. c = CHR ''+'' \<or> c = CHR ''/'' \<or> ascii_alphanumeric c) b64_alphabet"
    by code_simp
  then show "c \<in> set b64_alphabet \<Longrightarrow> c = CHR ''+'' \<or> c = CHR ''/'' \<or> ascii_alphanumeric c"
    by (simp add: list_all_iff)
qed






section \<open>Properties of the URI encoder\<close>

lemma b64uEnc_chars:
  assumes "c \<in> set (b64uEnc s)"
  shows "ascii_alphanumeric c \<or> c = CHR ''-'' \<or> c = CHR ''_'' \<or> c = CHR ''.''"
proof -
  from assms obtain c' where c': "c' \<in> set (btoa s)"
    and c: "c = (if c' \<in> set ''+/='' then (case map_of B64U_LOOKUP c' of Some r \<Rightarrow> r | None \<Rightarrow> c') else c')"
    by (auto simp: b64uEnc_def replace_chars_def)
  from btoa_chars [OF c'] alphabet_chars [of c']
  have "c' = CHR ''+'' \<or> c' = CHR ''/'' \<or> c' = CHR ''='' \<or> ascii_alphanumeric c'" by blast
  then show ?thesis unfolding c by (auto simp: B64U_LOOKUP_def)
qed

lemma urlencode_safe:
  assumes "\<And>c. c \<in> set s \<Longrightarrow> ascii_alphanumeric c \<or> c = CHR ''-'' \<or> c = CHR ''_'' \<or> c = CHR ''.''"
  shows "urlencode s = s"
proof -
  have sp: "\<not> ascii_alphanumeric CHR '' ''" by code_simp
  have unit: "urlencode_unit c = [c]" if "c \<in> set s" for c
    using assms [OF that] sp by (auto simp: urlencode_unit_def)
  have m: "map urlencode_unit s = map (\<lambda>c. [c]) s"
    by (rule map_cong [OF refl]) (rule unit)
  have c: "concat (map (\<lambda>c. [c]) s) = s" by (induction s) simp_all
  show ?thesis unfolding urlencode_def m by (rule c)
qed

lemma urlencode_b64uEnc: "urlencode (b64uEnc s) = b64uEnc s"
  using b64uEnc_chars by (rule urlencode_safe)

lemma urlencode_keys:
  "urlencode ''nb'' = ''nb''" "urlencode ''s'' = ''s''" "urlencode ''cb'' = ''cb''" "urlencode [] = []"
  by code_simp+

text \<open>
  C9, as the code has it. The query is a question mark and the emitted pairs joined by
  \<open>&\<close>, in the order \<open>nb\<close>, \<open>s\<close>, \<open>cb\<close>: \<open>nb=\<close> exactly when \<open>no_broadcast\<close> is \<open>true\<close>,
  \<open>s=\<close> and the form-urlencoded signer exactly when the signer is set and not the empty
  string, \<open>cb=\<close> and the Base64u of the callback exactly when the callback is set and not
  the empty string. With no pair the query is empty, without the question mark.
\<close>

theorem encodeParameters_query:
  "encodeParameters p =
     (let parts =
        (if no_broadcast p = Some True then [''nb=''] else []) @
        (case signer p of Some s \<Rightarrow> if s = [] then [] else [''s='' @ urlencode s] | None \<Rightarrow> []) @
        (case callback p of Some c \<Rightarrow> if c = [] then [] else [''cb='' @ b64uEnc c] | None \<Rightarrow> [])
      in if parts = [] then [] else ''?'' @ join ''&'' parts)"
  by (cases "signer p"; cases "callback p")
     (simp_all add: encodeParameters_def Let_def URLSearchParams_toString_def urlencode_keys
        urlencode_b64uEnc)

theorem encodeParameters_query_witness:
  "encodeParameters \<lparr>signer = Some ''a b'', callback = Some ''A'', no_broadcast = Some True\<rparr> = ''?nb=&s=a+b&cb=QQ..''"
proof -
  have "urlencode ''a b'' = ''a+b''" by code_simp
  moreover have "b64uEnc ''A'' = ''QQ..''" by code_simp
  ultimately show ?thesis
    using encodeParameters_query [of "\<lparr>signer = Some ''a b'', callback = Some ''A'', no_broadcast = Some True\<rparr>"]
    by simp
qed

text \<open>
  C9 as stated fails for a signer or a callback that is set to the empty string: it is
  set, and no pair is emitted.
\<close>

theorem encodeParameters_empty_counterexample:
  "encodeParameters \<lparr>signer = Some [], callback = Some [], no_broadcast = None\<rparr> = []"
  by code_simp

end
